theory Spec2Isabelle
  imports Complex_Main
begin

section \<open>The Eiger hardware interface (EigerInterface.cpp)\<close>

text \<open>
  \<^verbatim>\<open>Interface\<close> composes a camera (\<^verbatim>\<open>m_cam\<close>), a saving object
  (\<^verbatim>\<open>m_saving\<close>), a stream (\<^verbatim>\<open>m_stream\<close>) and a decompression object
  (\<^verbatim>\<open>m_decompress\<close>) into the acquisition verbs of the host framework.  The bodies of
  these collaborators are not part of the two source files, so the embedding fixes only what
  \<^verbatim>\<open>Interface\<close> itself does with them: which methods it calls, with which arguments,
  in which order, and what happens to control when a call throws.
\<close>

subsection \<open>Enumerations\<close>

text \<open>
  Modelled from the spec: the declaration of \<^verbatim>\<open>Camera::Status\<close> (EigerCamera.h) is
  missing; its five values are the five labels of the \<^verbatim>\<open>switch\<close> in
  \<^verbatim>\<open>Interface::getStatus\<close> and the five detector states the specification lists.
\<close>

datatype Camera_Status =
  Camera_Ready | Camera_Exposure | Camera_Armed | Camera_Fault | Camera_Initializing

text \<open>The trigger modes of the host framework (\<^verbatim>\<open>lima::TrigMode\<close>).\<close>

datatype TrigMode =
  IntTrig | IntTrigMult | ExtTrigSingle | ExtTrigMult | ExtGate | ExtStartStop | ExtTrigReadout

text \<open>
  Modelled from the spec: the declaration of \<^verbatim>\<open>SavingCtrlObj::Status\<close>
  (EigerSavingCtrlObj.h) is missing; the code names \<^verbatim>\<open>IDLE\<close> and
  \<^verbatim>\<open>RUNNING\<close> and the specification gives the third value as an error state.
\<close>

datatype SavingCtrlObj_Status = SavingCtrlObj_IDLE | SavingCtrlObj_RUNNING | SavingCtrlObj_ERROR

text \<open>
  The basic states of \<^verbatim>\<open>HwInterface::StatusType\<close>, the argument of
  \<^verbatim>\<open>status.set\<close>.
\<close>

datatype StatusType =
  StatusType_Fault | StatusType_Ready | StatusType_Exposure | StatusType_Readout
  | StatusType_Latency | StatusType_Config

datatype ResetLevel = SoftReset | HardReset

subsection \<open>Collaborator calls, exceptions and the environment\<close>

text \<open>
  A C++ exception thrown by a collaborator.  \<^verbatim>\<open>catch (...)\<close> catches every one of
  them, so only the identity of the exception matters.
\<close>

datatype exn = Exn string

text \<open>
  The state-changing calls \<^verbatim>\<open>Interface\<close> issues, each with its arguments.
  \<^verbatim>\<open>usleep\<close> takes microseconds; \<^verbatim>\<open>waitArmed\<close> takes seconds.
\<close>

datatype call =
    Camera_disarm
  | Camera_deleteMemoryFiles
  | Camera_prepareAcq
  | Camera_startAcq
  | Camera_stopAcq
  | SavingCtrlObj_setSerieId int
  | SavingCtrlObj_start
  | SavingCtrlObj_stop
  | Stream_setActive bool
  | Stream_resetStatistics
  | Stream_waitArmed real
  | Stream_start
  | Stream_stop
  | Decompress_setActive bool
  | Usleep nat

text \<open>
  What the collaborators answer and do during one call of an \<^verbatim>\<open>Interface\<close> method.
  The first eight fields are the answers of the query methods, named after them.  A query
  is taken to return its answer and to change nothing; each method body asks each query at
  most once, so one answer per query is enough.
  \<^verbatim>\<open>raises c\<close> is the exception the call \<^verbatim>\<open>c\<close> throws, or \<^verbatim>\<open>None\<close> when it
  returns normally.  The sources at hand do not say which of the calls can throw, so the
  environment is free to let any of them throw.
\<close>

record Env =
  Camera_getStatus :: Camera_Status
  Camera_getTrigMode :: TrigMode
  Camera_getNbFrames :: int
  Camera_getNbTriggeredFrames :: int
  Camera_getSerieId :: int
  SavingCtrlObj_isActive :: bool
  SavingCtrlObj_getStatus :: SavingCtrlObj_Status
  Stream_isRunning :: bool
  raises :: "call \<Rightarrow> exn option"

text \<open>
  The configuration that \<^verbatim>\<open>Interface\<close> writes into its sub-objects: the active flag
  of the stream, the active flag of the decompression object, and the serie id of the saving
  object.
\<close>

record Subsystems =
  stream_active :: bool
  decompress_active :: bool
  saving_serie_id :: int

text \<open>
  Modelled from the spec: the bodies of \<^verbatim>\<open>Stream::setActive\<close>,
  \<^verbatim>\<open>Decompress::setActive\<close> and \<^verbatim>\<open>SavingCtrlObj::setSerieId\<close> are missing;
  the specification gives them as plain setters, so a call that completes stores its
  argument in the field it is named after.  No other call writes these fields.
\<close>

fun effect :: "call \<Rightarrow> Subsystems \<Rightarrow> Subsystems" where
  "effect (Stream_setActive b) s = s\<lparr>stream_active := b\<rparr>"
| "effect (Decompress_setActive b) s = s\<lparr>decompress_active := b\<rparr>"
| "effect (SavingCtrlObj_setSerieId n) s = s\<lparr>saving_serie_id := n\<rparr>"
| "effect _ s = s"

subsection \<open>Sequencing with exceptions\<close>

text \<open>
  A method body maps the configuration to an outcome (\<^verbatim>\<open>Inl e\<close>: the exception
  \<^verbatim>\<open>e\<close> left the body; \<^verbatim>\<open>Inr x\<close>: it returned \<^verbatim>\<open>x\<close>), the new
  configuration, and the calls it issued, oldest first.  A call that throws is in the list:
  it was issued.
\<close>

type_synonym 'a run = "(exn + 'a) \<times> Subsystems \<times> call list"
type_synonym 'a body = "Subsystems \<Rightarrow> 'a run"

definition outcome :: "'a run \<Rightarrow> exn + 'a" where
  "outcome r = fst r"

definition final :: "'a run \<Rightarrow> Subsystems" where
  "final r = fst (snd r)"

definition trace :: "'a run \<Rightarrow> call list" where
  "trace r = snd (snd r)"

definition skip :: "unit body" where
  "skip s = (Inr (), s, [])"

definition throw :: "exn \<Rightarrow> unit body" where
  "throw e s = (Inl e, s, [])"

text \<open>\<^verbatim>\<open>a; b\<close>: when \<^verbatim>\<open>a\<close> throws, \<^verbatim>\<open>b\<close> is not executed.\<close>

definition seq :: "unit body \<Rightarrow> unit body \<Rightarrow> unit body" where
  "seq a b s =
     (case a s of
        (Inl e, s', t) \<Rightarrow> (Inl e, s', t)
      | (Inr _, s', t) \<Rightarrow> (case b s' of (r, s'', t') \<Rightarrow> (r, s'', t @ t')))"

text \<open>\<^verbatim>\<open>try { a } catch (...) { h }\<close>, the handler receiving the caught exception.\<close>

definition try_catch :: "unit body \<Rightarrow> (exn \<Rightarrow> unit body) \<Rightarrow> unit body" where
  "try_catch a h s =
     (case a s of
        (Inl e, s', t) \<Rightarrow> (case h e s' of (r, s'', t') \<Rightarrow> (r, s'', t @ t'))
      | (Inr x, s', t) \<Rightarrow> (Inr x, s', t))"

text \<open>
  A collaborator call: it is issued, then it either throws, leaving the configuration as it
  was, or takes effect.
\<close>

definition invoke :: "Env \<Rightarrow> call \<Rightarrow> unit body" where
  "invoke env c s =
     (case raises env c of
        Some e \<Rightarrow> (Inl e, s, [c])
      | None \<Rightarrow> (Inr (), effect c s, [c]))"

text \<open>\<^verbatim>\<open>usleep\<close> is the C library function: it does not throw.\<close>

definition usleep :: "nat \<Rightarrow> unit body" where
  "usleep n s = (Inr (), s, [Usleep n])"

subsection \<open>The acquisition verbs\<close>

text \<open>
  \<^verbatim>\<open>Interface::prepareAcq\<close>.  \<^verbatim>\<open>usleep(2e6)\<close> sleeps 2000000 microseconds.
\<close>

definition prepareAcq :: "Env \<Rightarrow> unit body" where
  "prepareAcq env =
    (let use_filewriter = SavingCtrlObj_isActive env in
     seq (if Camera_getStatus env = Camera_Armed
          then seq (invoke env Camera_disarm)
                   (if use_filewriter then usleep 2000000 else skip)
          else skip)
    (seq (if use_filewriter then invoke env Camera_deleteMemoryFiles else skip)
    (seq (invoke env (Stream_setActive (\<not> use_filewriter)))
    (seq (invoke env (Decompress_setActive (\<not> use_filewriter)))
    (seq (invoke env Stream_resetStatistics)
    (try_catch
       (seq (invoke env Camera_prepareAcq)
       (seq (invoke env (SavingCtrlObj_setSerieId (Camera_getSerieId env)))
            (if \<not> use_filewriter then invoke env (Stream_waitArmed 5) else skip)))
       (\<lambda>e. seq (invoke env SavingCtrlObj_stop)
            (seq (invoke env Stream_stop)
                 (throw e)))))))))"

text \<open>\<^verbatim>\<open>Interface::startAcq\<close>.\<close>

definition startAcq :: "Env \<Rightarrow> unit body" where
  "startAcq env =
    (let trig_mode = Camera_getTrigMode env;
         nb_trig_frames = Camera_getNbTriggeredFrames env in
     seq (if trig_mode \<noteq> IntTrigMult \<or> nb_trig_frames = 0
          then (if SavingCtrlObj_isActive env
                then invoke env SavingCtrlObj_start
                else invoke env Stream_start)
          else skip)
         (invoke env Camera_startAcq))"

text \<open>\<^verbatim>\<open>Interface::stopAcq\<close>.\<close>

definition stopAcq :: "Env \<Rightarrow> unit body" where
  "stopAcq env =
     seq (invoke env Camera_stopAcq)
    (seq (invoke env SavingCtrlObj_stop)
         (invoke env Stream_stop))"

text \<open>\<^verbatim>\<open>Interface::reset\<close>: the level is only written to the debug output.\<close>

definition reset :: "ResetLevel \<Rightarrow> Env \<Rightarrow> unit body" where
  "reset reset_level env = stopAcq env"

text \<open>
  \<^verbatim>\<open>Interface::getStatus\<close> issues queries only; its result is the argument of the one
  \<^verbatim>\<open>status.set\<close> it executes.
\<close>

definition getStatus :: "Env \<Rightarrow> StatusType" where
  "getStatus env =
    (case Camera_getStatus env of
       Camera_Ready \<Rightarrow>
         (let mult_trig_in_progress =
                (if Camera_getTrigMode env = IntTrigMult
                 then Camera_getNbTriggeredFrames env \<noteq> Camera_getNbFrames env
                 else False)
          in if mult_trig_in_progress then StatusType_Ready
             else if SavingCtrlObj_isActive env then
               (case SavingCtrlObj_getStatus env of
                  SavingCtrlObj_IDLE \<Rightarrow> StatusType_Ready
                | SavingCtrlObj_RUNNING \<Rightarrow> StatusType_Readout
                | _ \<Rightarrow> StatusType_Fault)
             else if Stream_isRunning env then StatusType_Readout
             else StatusType_Ready)
     | Camera_Exposure \<Rightarrow> StatusType_Exposure
     | Camera_Armed \<Rightarrow> StatusType_Ready
     | Camera_Fault \<Rightarrow> StatusType_Fault
     | Camera_Initializing \<Rightarrow> StatusType_Config)"

text \<open>
  The decision table of the specification, one equation per row, in the order of the table.
  The second argument is ``a multi-trigger is in progress'', the third ``saving is active'',
  the fifth ``the stream is running''.
\<close>

definition multi_trigger_in_progress :: "Env \<Rightarrow> bool" where
  "multi_trigger_in_progress env \<longleftrightarrow>
     Camera_getTrigMode env = IntTrigMult \<and>
     Camera_getNbTriggeredFrames env \<noteq> Camera_getNbFrames env"

fun decision_table ::
  "Camera_Status \<Rightarrow> bool \<Rightarrow> bool \<Rightarrow> SavingCtrlObj_Status \<Rightarrow> bool \<Rightarrow> StatusType" where
  "decision_table Camera_Exposure _ _ _ _ = StatusType_Exposure"
| "decision_table Camera_Armed _ _ _ _ = StatusType_Ready"
| "decision_table Camera_Fault _ _ _ _ = StatusType_Fault"
| "decision_table Camera_Initializing _ _ _ _ = StatusType_Config"
| "decision_table Camera_Ready True _ _ _ = StatusType_Ready"
| "decision_table Camera_Ready False True SavingCtrlObj_IDLE _ = StatusType_Ready"
| "decision_table Camera_Ready False True SavingCtrlObj_RUNNING _ = StatusType_Readout"
| "decision_table Camera_Ready False True _ _ = StatusType_Fault"
| "decision_table Camera_Ready False False _ True = StatusType_Readout"
| "decision_table Camera_Ready False False _ False = StatusType_Ready"

subsection \<open>Construction and destruction\<close>

text \<open>
  The sub-objects \<^verbatim>\<open>Interface\<close> creates with \<^verbatim>\<open>new\<close>, named by the member
  that holds the pointer.
\<close>

datatype sub_object =
  m_det_info | m_roi | m_sync | m_saving | m_event | m_stream | m_decompress

text \<open>
  A capability handle wraps a pointer: \<^verbatim>\<open>HwCap p\<close> the sub-object \<^verbatim>\<open>p\<close> itself,
  \<^verbatim>\<open>HwCap_buffer p\<close> the buffer control object that \<^verbatim>\<open>p->getBufferCtrlObj()\<close>
  returns.
\<close>

datatype HwCap = HwCap sub_object | HwCap_buffer sub_object

text \<open>
  The object under construction or destruction: the capability list, the sub-objects created
  with \<^verbatim>\<open>new\<close> and those destroyed with \<^verbatim>\<open>delete\<close> (oldest first), and the number
  of \<^verbatim>\<open>hasHwRoiSupport\<close> queries sent to the ROI object.
\<close>

record Interface =
  m_cap_list :: "HwCap list"
  created :: "sub_object list"
  destroyed :: "sub_object list"
  roi_probes :: nat

definition new :: "sub_object \<Rightarrow> Interface \<Rightarrow> Interface" where
  "new p i = i\<lparr>created := created i @ [p]\<rparr>"

definition delete :: "sub_object \<Rightarrow> Interface \<Rightarrow> Interface" where
  "delete p i = i\<lparr>destroyed := destroyed i @ [p]\<rparr>"

definition push_back :: "HwCap \<Rightarrow> Interface \<Rightarrow> Interface" where
  "push_back c i = i\<lparr>m_cap_list := m_cap_list i @ [c]\<rparr>"

definition probe_roi :: "Interface \<Rightarrow> Interface" where
  "probe_roi i = i\<lparr>roi_probes := Suc (roi_probes i)\<rparr>"

text \<open>
  The constructor.  Its argument is what \<^verbatim>\<open>m_roi->hasHwRoiSupport()\<close> answers for the
  attached detector model.
\<close>

definition Interface_ctor :: "bool \<Rightarrow> Interface" where
  "Interface_ctor hasHwRoiSupport =
    (let i = \<lparr>m_cap_list = [], created = [], destroyed = [], roi_probes = 0\<rparr>;
         i = new m_det_info i;
         i = push_back (HwCap m_det_info) i;
         i = new m_roi i;
         i = probe_roi i;
         i = (if hasHwRoiSupport then push_back (HwCap m_roi) i else i);
         i = new m_sync i;
         i = push_back (HwCap m_sync) i;
         i = new m_saving i;
         i = push_back (HwCap m_saving) i;
         i = new m_event i;
         i = push_back (HwCap m_event) i;
         i = new m_stream i;
         i = push_back (HwCap_buffer m_stream) i;
         i = new m_decompress i;
         i = push_back (HwCap m_decompress) i
     in i)"

text \<open>The destructor.\<close>

definition Interface_dtor :: "Interface \<Rightarrow> Interface" where
  "Interface_dtor i0 =
    (let i = delete m_det_info i0;
         i = delete m_roi i;
         i = delete m_sync i;
         i = delete m_saving i;
         i = delete m_stream i;
         i = delete m_decompress i
     in i)"

subsection \<open>Concrete environments\<close>

text \<open>
  An environment in which the detector has the given status, saving has the given activation
  flag, the trigger mode is internal single trigger, and the calls throw as \<^verbatim>\<open>f\<close> says.
\<close>

definition env_of :: "Camera_Status \<Rightarrow> bool \<Rightarrow> (call \<Rightarrow> exn option) \<Rightarrow> Env" where
  "env_of st saving f =
     \<lparr>Camera_getStatus = st, Camera_getTrigMode = IntTrig, Camera_getNbFrames = 1,
      Camera_getNbTriggeredFrames = 0, Camera_getSerieId = 7,
      SavingCtrlObj_isActive = saving, SavingCtrlObj_getStatus = SavingCtrlObj_IDLE,
      Stream_isRunning = False, raises = f\<rparr>"

definition no_failure :: "call \<Rightarrow> exn option" where
  "no_failure c = None"

definition failing :: "call \<Rightarrow> string \<Rightarrow> (call \<Rightarrow> exn option) \<Rightarrow> call \<Rightarrow> exn option" where
  "failing c msg f c' = (if c' = c then Some (Exn msg) else f c')"

definition idle :: Subsystems where
  "idle = \<lparr>stream_active = False, decompress_active = False, saving_serie_id = 0\<rparr>"

section \<open>Composite status\<close>

text \<open>
  C1.  For every combination of sub-component states, \<^verbatim>\<open>getStatus\<close> returns the
  composite status of the decision table: Exposure gives Exposure, Armed gives Ready, Fault
  gives Fault, Initializing gives Config; Ready gives Ready while a multi-trigger is in
  progress (internal multi-trigger mode and the triggered-frame count differs from the total
  frame count), otherwise Ready, Readout or Fault as the saving status is idle, running or
  anything else when saving is active, and otherwise Readout when the stream is running and
  Ready when it is not.
\<close>

theorem getStatus_decision_table:
  "getStatus env =
     decision_table (Camera_getStatus env) (multi_trigger_in_progress env)
       (SavingCtrlObj_isActive env) (SavingCtrlObj_getStatus env) (Stream_isRunning env)"
proof -
  have cond: "(if Camera_getTrigMode env = IntTrigMult
               then Camera_getNbTriggeredFrames env \<noteq> Camera_getNbFrames env
               else False) = multi_trigger_in_progress env"
    by (simp add: multi_trigger_in_progress_def)
  show ?thesis
    unfolding getStatus_def Let_def cond
    by (cases "Camera_getStatus env"; cases "SavingCtrlObj_getStatus env";
        cases "Stream_isRunning env"; cases "SavingCtrlObj_isActive env";
        cases "multi_trigger_in_progress env"; simp)
qed

section \<open>Start, stop and reset\<close>

lemmas body_defs = seq_def try_catch_def invoke_def usleep_def skip_def throw_def
  outcome_def final_def trace_def Let_def

lemmas env_defs = env_of_def no_failure_def failing_def idle_def

text \<open>The complete behaviour of \<^verbatim>\<open>stopAcq\<close>, by the first stop call that throws.\<close>

lemma stopAcq_run:
  "stopAcq env s =
    (case raises env Camera_stopAcq of
       Some e \<Rightarrow> (Inl e, s, [Camera_stopAcq])
     | None \<Rightarrow>
        (case raises env SavingCtrlObj_stop of
           Some e \<Rightarrow> (Inl e, s, [Camera_stopAcq, SavingCtrlObj_stop])
         | None \<Rightarrow>
            (case raises env Stream_stop of
               Some e \<Rightarrow> (Inl e, s, [Camera_stopAcq, SavingCtrlObj_stop, Stream_stop])
             | None \<Rightarrow> (Inr (), s, [Camera_stopAcq, SavingCtrlObj_stop, Stream_stop]))))"
  by (simp add: stopAcq_def body_defs split: option.splits)

text \<open>
  C2.  For every trigger mode, triggered-frame count and saving flag: \<^verbatim>\<open>startAcq\<close>
  starts the saving object exactly when the gate holds (the trigger mode is not internal
  multi-trigger, or the triggered-frame counter is zero) and saving is active, and starts the
  stream exactly when the gate holds and saving is not active; it never starts both.  When the
  gate does not hold, the camera-level start is its only call, whatever a subsystem start
  would have done.  When the gate holds and the start it selected returns, its calls are that
  start followed by the camera-level start.  So the camera-level start is issued, as the last
  call, in every case of the gate.
\<close>

theorem startAcq_gating:
  "(SavingCtrlObj_start \<in> set (trace (startAcq env s)) \<longleftrightarrow>
      (Camera_getTrigMode env \<noteq> IntTrigMult \<or> Camera_getNbTriggeredFrames env = 0) \<and>
      SavingCtrlObj_isActive env) \<and>
   (Stream_start \<in> set (trace (startAcq env s)) \<longleftrightarrow>
      (Camera_getTrigMode env \<noteq> IntTrigMult \<or> Camera_getNbTriggeredFrames env = 0) \<and>
      \<not> SavingCtrlObj_isActive env) \<and>
   \<not> (SavingCtrlObj_start \<in> set (trace (startAcq env s)) \<and>
      Stream_start \<in> set (trace (startAcq env s))) \<and>
   (\<not> (Camera_getTrigMode env \<noteq> IntTrigMult \<or> Camera_getNbTriggeredFrames env = 0) \<longrightarrow>
      trace (startAcq env s) = [Camera_startAcq]) \<and>
   ((Camera_getTrigMode env \<noteq> IntTrigMult \<or> Camera_getNbTriggeredFrames env = 0 \<longrightarrow>
       raises env (if SavingCtrlObj_isActive env then SavingCtrlObj_start else Stream_start)
         = None)
    \<longrightarrow>
      trace (startAcq env s) =
        (if Camera_getTrigMode env \<noteq> IntTrigMult \<or> Camera_getNbTriggeredFrames env = 0
         then [if SavingCtrlObj_isActive env then SavingCtrlObj_start else Stream_start]
         else []) @ [Camera_startAcq])"
  by (simp add: startAcq_def body_defs split: option.splits)

text \<open>
  An open gate (saving active, internal single trigger, nothing failing), and a closed gate
  (internal multi-trigger with three frames already triggered) where the saving start would
  throw if it were called.
\<close>

theorem startAcq_gating_witness:
  "trace (startAcq (env_of Camera_Ready True no_failure) idle) =
     [SavingCtrlObj_start, Camera_startAcq] \<and>
   Stream_start \<notin> set (trace (startAcq (env_of Camera_Ready True no_failure) idle)) \<and>
   raises ((env_of Camera_Ready True (failing SavingCtrlObj_start ''busy'' no_failure))
             \<lparr>Camera_getTrigMode := IntTrigMult, Camera_getNbTriggeredFrames := 3\<rparr>)
     SavingCtrlObj_start = Some (Exn ''busy'') \<and>
   trace (startAcq ((env_of Camera_Ready True (failing SavingCtrlObj_start ''busy'' no_failure))
             \<lparr>Camera_getTrigMode := IntTrigMult, Camera_getNbTriggeredFrames := 3\<rparr>) idle) =
     [Camera_startAcq]"
proof -
  let ?open = "env_of Camera_Ready True no_failure"
  let ?closed = "(env_of Camera_Ready True (failing SavingCtrlObj_start ''busy'' no_failure))
             \<lparr>Camera_getTrigMode := IntTrigMult, Camera_getNbTriggeredFrames := 3\<rparr>"
  have h: "Camera_getTrigMode ?open \<noteq> IntTrigMult \<or> Camera_getNbTriggeredFrames ?open = 0 \<longrightarrow>
     raises ?open (if SavingCtrlObj_isActive ?open then SavingCtrlObj_start else Stream_start)
       = None"
    by (simp add: env_defs)
  have a: "SavingCtrlObj_isActive ?open"
    and m: "Camera_getTrigMode ?open \<noteq> IntTrigMult"
    by (simp_all add: env_defs)
  have c: "\<not> (Camera_getTrigMode ?closed \<noteq> IntTrigMult \<or>
              Camera_getNbTriggeredFrames ?closed = 0)"
    and r: "raises ?closed SavingCtrlObj_start = Some (Exn ''busy'')"
    by (simp_all add: env_defs)
  from startAcq_gating [of ?open idle] h a m
  have o: "trace (startAcq ?open idle) = [SavingCtrlObj_start, Camera_startAcq] \<and>
           Stream_start \<notin> set (trace (startAcq ?open idle))"
    by simp
  from startAcq_gating [of ?closed idle] c
  have "trace (startAcq ?closed idle) = [Camera_startAcq]"
    by blast
  with o r show ?thesis by blast
qed

text \<open>
  The claim C4 says that no stop call is skipped even if an earlier one fails.  When the
  camera-level stop throws, \<^verbatim>\<open>stopAcq\<close> issues neither the saving stop nor the stream
  stop, and the exception reaches the caller.
\<close>

theorem stopAcq_skips_after_failure:
  "trace (stopAcq (env_of Camera_Ready False (failing Camera_stopAcq ''abort'' no_failure)) idle)
     = [Camera_stopAcq] \<and>
   SavingCtrlObj_stop \<notin> set (trace (stopAcq (env_of Camera_Ready False
       (failing Camera_stopAcq ''abort'' no_failure)) idle)) \<and>
   Stream_stop \<notin> set (trace (stopAcq (env_of Camera_Ready False
       (failing Camera_stopAcq ''abort'' no_failure)) idle)) \<and>
   outcome (stopAcq (env_of Camera_Ready False (failing Camera_stopAcq ''abort'' no_failure)) idle)
     = Inl (Exn ''abort'')"
  by (simp add: stopAcq_run env_defs trace_def outcome_def)

text \<open>
  C4 (amended).  \<^verbatim>\<open>stopAcq\<close> stops the camera, then the saving object, then the
  stream, in that order, each stop being issued only when every earlier one returned: all
  three are issued when the first two return, and the exception of the first stop that throws
  reaches the caller, the later stops being skipped.
\<close>

theorem stopAcq_order:
  "trace (stopAcq env s) =
     Camera_stopAcq #
       (if raises env Camera_stopAcq = None
        then SavingCtrlObj_stop #
               (if raises env SavingCtrlObj_stop = None then [Stream_stop] else [])
        else []) \<and>
   outcome (stopAcq env s) =
     (case raises env Camera_stopAcq of
        Some e \<Rightarrow> Inl e
      | None \<Rightarrow>
         (case raises env SavingCtrlObj_stop of
            Some e \<Rightarrow> Inl e
          | None \<Rightarrow> (case raises env Stream_stop of Some e \<Rightarrow> Inl e | None \<Rightarrow> Inr ())))"
  by (simp add: stopAcq_run trace_def outcome_def split: option.splits)

text \<open>
  C10.  For every reset level, \<^verbatim>\<open>reset\<close> is \<^verbatim>\<open>stopAcq\<close>: the same outcome, the same
  configuration and the same calls, whatever the level; when the camera stop and the saving
  stop return, these calls are the camera stop, the saving stop and the stream stop, in that
  order.
\<close>

theorem reset_is_stopAcq:
  "reset reset_level env s = stopAcq env s \<and>
   reset reset_level env s = reset reset_level' env s \<and>
   (raises env Camera_stopAcq = None \<and> raises env SavingCtrlObj_stop = None \<longrightarrow>
      trace (reset reset_level env s) = [Camera_stopAcq, SavingCtrlObj_stop, Stream_stop])"
  by (simp add: reset_def stopAcq_run trace_def split: option.splits)

text \<open>A hard reset during an exposure, nothing failing.\<close>

theorem reset_is_stopAcq_witness:
  "raises (env_of Camera_Exposure True no_failure) Camera_stopAcq = None \<and>
   raises (env_of Camera_Exposure True no_failure) SavingCtrlObj_stop = None \<and>
   reset HardReset (env_of Camera_Exposure True no_failure) idle =
     stopAcq (env_of Camera_Exposure True no_failure) idle \<and>
   trace (reset HardReset (env_of Camera_Exposure True no_failure) idle) =
     [Camera_stopAcq, SavingCtrlObj_stop, Stream_stop]"
proof -
  have h: "raises (env_of Camera_Exposure True no_failure) Camera_stopAcq = None \<and>
           raises (env_of Camera_Exposure True no_failure) SavingCtrlObj_stop = None"
    by (simp add: env_defs)
  from reset_is_stopAcq [of HardReset "env_of Camera_Exposure True no_failure" idle SoftReset] h
  show ?thesis by blast
qed

section \<open>Preparing an acquisition\<close>

text \<open>
  C3.  For any saving-activation flag read at the start of the call: \<^verbatim>\<open>prepareAcq\<close>
  hands no other value than the negation of that flag to \<^verbatim>\<open>setActive\<close> of the stream
  or of the decompression object, and once the steps up to the two \<^verbatim>\<open>setActive\<close>
  calls have returned (disarm when the detector is armed, the storage clear when saving is
  active, the two calls themselves), both flags hold the negation of the saving flag at the
  end of the call, whether or not a later step throws; the two flags are equal.
\<close>

theorem prepareAcq_active_flags:
  "(\<forall>b. Stream_setActive b \<in> set (trace (prepareAcq env s)) \<longrightarrow>
        b = (\<not> SavingCtrlObj_isActive env)) \<and>
   (\<forall>b. Decompress_setActive b \<in> set (trace (prepareAcq env s)) \<longrightarrow>
        b = (\<not> SavingCtrlObj_isActive env)) \<and>
   ((Camera_getStatus env = Camera_Armed \<longrightarrow> raises env Camera_disarm = None) \<and>
    (SavingCtrlObj_isActive env \<longrightarrow> raises env Camera_deleteMemoryFiles = None) \<and>
    raises env (Stream_setActive (\<not> SavingCtrlObj_isActive env)) = None \<and>
    raises env (Decompress_setActive (\<not> SavingCtrlObj_isActive env)) = None \<longrightarrow>
    stream_active (final (prepareAcq env s)) = (\<not> SavingCtrlObj_isActive env) \<and>
    decompress_active (final (prepareAcq env s)) = (\<not> SavingCtrlObj_isActive env) \<and>
    stream_active (final (prepareAcq env s)) = decompress_active (final (prepareAcq env s)))"
  by (cases "SavingCtrlObj_isActive env"; cases "Camera_getStatus env = Camera_Armed";
      simp add: prepareAcq_def body_defs split: option.splits)

text \<open>
  An armed detector with saving active and both flags set from an earlier acquisition; the
  camera-level prepare throws, and the flags are cleared all the same.
\<close>

theorem prepareAcq_active_flags_witness:
  "stream_active (final (prepareAcq (env_of Camera_Armed True
      (failing Camera_prepareAcq ''busy'' no_failure))
      \<lparr>stream_active = True, decompress_active = True, saving_serie_id = 0\<rparr>)) = False \<and>
   decompress_active (final (prepareAcq (env_of Camera_Armed True
      (failing Camera_prepareAcq ''busy'' no_failure))
      \<lparr>stream_active = True, decompress_active = True, saving_serie_id = 0\<rparr>)) = False"
proof -
  let ?env = "env_of Camera_Armed True (failing Camera_prepareAcq ''busy'' no_failure)"
  have h: "(Camera_getStatus ?env = Camera_Armed \<longrightarrow> raises ?env Camera_disarm = None) \<and>
    (SavingCtrlObj_isActive ?env \<longrightarrow> raises ?env Camera_deleteMemoryFiles = None) \<and>
    raises ?env (Stream_setActive (\<not> SavingCtrlObj_isActive ?env)) = None \<and>
    raises ?env (Decompress_setActive (\<not> SavingCtrlObj_isActive ?env)) = None"
    by (simp add: env_defs)
  have a: "SavingCtrlObj_isActive ?env" by (simp add: env_defs)
  from prepareAcq_active_flags [of ?env
      "\<lparr>stream_active = True, decompress_active = True, saving_serie_id = 0\<rparr>"] h a
  show ?thesis by blast
qed

text \<open>
  C6.  When the detector reports Armed, saving is in use and the disarm returns,
  \<^verbatim>\<open>prepareAcq\<close> begins with the disarm, then the guard delay of 2000000 microseconds,
  then the storage clear.  In every run no delay follows the storage clear; a disarm is
  issued only when the detector was Armed, a delay only when it was Armed and saving is in
  use (and it is the 2 second one), and the storage is cleared only when saving is in use.
\<close>

theorem prepareAcq_guard_delay:
  "(Camera_getStatus env = Camera_Armed \<and> SavingCtrlObj_isActive env \<and>
    raises env Camera_disarm = None \<longrightarrow>
      take 3 (trace (prepareAcq env s)) =
        [Camera_disarm, Usleep 2000000, Camera_deleteMemoryFiles]) \<and>
   (\<forall>n. Usleep n \<notin> set (dropWhile (\<lambda>c. c \<noteq> Camera_deleteMemoryFiles)
                            (trace (prepareAcq env s)))) \<and>
   (Camera_disarm \<in> set (trace (prepareAcq env s)) \<longrightarrow>
      Camera_getStatus env = Camera_Armed) \<and>
   (\<forall>n. Usleep n \<in> set (trace (prepareAcq env s)) \<longrightarrow>
      n = 2000000 \<and> Camera_getStatus env = Camera_Armed \<and> SavingCtrlObj_isActive env) \<and>
   (Camera_deleteMemoryFiles \<in> set (trace (prepareAcq env s)) \<longrightarrow>
      SavingCtrlObj_isActive env)"
  by (cases "SavingCtrlObj_isActive env"; cases "Camera_getStatus env = Camera_Armed";
      simp add: prepareAcq_def body_defs split: option.splits)

text \<open>An armed detector with saving active, nothing failing.\<close>

theorem prepareAcq_guard_delay_witness:
  "Camera_getStatus (env_of Camera_Armed True no_failure) = Camera_Armed \<and>
   SavingCtrlObj_isActive (env_of Camera_Armed True no_failure) \<and>
   raises (env_of Camera_Armed True no_failure) Camera_disarm = None \<and>
   take 3 (trace (prepareAcq (env_of Camera_Armed True no_failure) idle)) =
     [Camera_disarm, Usleep 2000000, Camera_deleteMemoryFiles]"
proof -
  have h: "Camera_getStatus (env_of Camera_Armed True no_failure) = Camera_Armed \<and>
   SavingCtrlObj_isActive (env_of Camera_Armed True no_failure) \<and>
   raises (env_of Camera_Armed True no_failure) Camera_disarm = None"
    by (simp add: env_defs)
  from prepareAcq_guard_delay [of "env_of Camera_Armed True no_failure" idle] h
  show ?thesis by blast
qed

text \<open>
  C7.  \<^verbatim>\<open>prepareAcq\<close> calls \<^verbatim>\<open>waitArmed\<close> only when saving is not in use, and only
  with the timeout 5.0 seconds.  When saving is not in use and the steps before the wait
  have returned, it does call \<^verbatim>\<open>waitArmed(5.0)\<close>; the call of \<^verbatim>\<open>prepareAcq\<close> then
  returns normally exactly when the wait does, so a wait that fails makes the call fail, and
  the exception the caller sees is the one of the wait when the two stop calls of the
  rollback return.
\<close>

theorem prepareAcq_waitArmed:
  "(\<forall>x. Stream_waitArmed x \<in> set (trace (prepareAcq env s)) \<longrightarrow>
        x = 5 \<and> \<not> SavingCtrlObj_isActive env) \<and>
   ((Camera_getStatus env = Camera_Armed \<longrightarrow> raises env Camera_disarm = None) \<and>
    \<not> SavingCtrlObj_isActive env \<and>
    raises env (Stream_setActive True) = None \<and>
    raises env (Decompress_setActive True) = None \<and>
    raises env Stream_resetStatistics = None \<and>
    raises env Camera_prepareAcq = None \<and>
    raises env (SavingCtrlObj_setSerieId (Camera_getSerieId env)) = None \<longrightarrow>
      Stream_waitArmed 5 \<in> set (trace (prepareAcq env s)) \<and>
      (outcome (prepareAcq env s) = Inr () \<longleftrightarrow> raises env (Stream_waitArmed 5) = None) \<and>
      (\<forall>e. raises env (Stream_waitArmed 5) = Some e \<and>
           raises env SavingCtrlObj_stop = None \<and> raises env Stream_stop = None \<longrightarrow>
           outcome (prepareAcq env s) = Inl e))"
  by (cases "SavingCtrlObj_isActive env"; cases "Camera_getStatus env = Camera_Armed";
      simp add: prepareAcq_def body_defs split: option.splits)

text \<open>The live-stream path with a stream that does not arm in time.\<close>

theorem prepareAcq_waitArmed_witness:
  "Stream_waitArmed 5 \<in> set (trace (prepareAcq (env_of Camera_Ready False
      (failing (Stream_waitArmed 5) ''stream not armed'' no_failure)) idle)) \<and>
   outcome (prepareAcq (env_of Camera_Ready False
      (failing (Stream_waitArmed 5) ''stream not armed'' no_failure)) idle)
     = Inl (Exn ''stream not armed'')"
proof -
  let ?env = "env_of Camera_Ready False
      (failing (Stream_waitArmed 5) ''stream not armed'' no_failure)"
  have h: "(Camera_getStatus ?env = Camera_Armed \<longrightarrow> raises ?env Camera_disarm = None) \<and>
    \<not> SavingCtrlObj_isActive ?env \<and>
    raises ?env (Stream_setActive True) = None \<and>
    raises ?env (Decompress_setActive True) = None \<and>
    raises ?env Stream_resetStatistics = None \<and>
    raises ?env Camera_prepareAcq = None \<and>
    raises ?env (SavingCtrlObj_setSerieId (Camera_getSerieId ?env)) = None"
    by (simp add: env_defs)
  have w: "raises ?env (Stream_waitArmed 5) = Some (Exn ''stream not armed'') \<and>
      raises ?env SavingCtrlObj_stop = None \<and> raises ?env Stream_stop = None"
    by (simp add: env_defs)
  from prepareAcq_waitArmed [of ?env idle] h w
  show ?thesis by blast
qed

text \<open>
  The claim C5 says that the rollback stops both the saving object and the stream and
  re-raises the original error unchanged.  When the camera-level prepare throws and the saving
  stop of the rollback throws as well, the stream stop is never issued and the caller sees the
  exception of the stop, not the one of the prepare.
\<close>

theorem prepareAcq_rollback_masked:
  "outcome (prepareAcq (env_of Camera_Ready False
      (failing Camera_prepareAcq ''prepare failed''
        (failing SavingCtrlObj_stop ''stop failed'' no_failure))) idle)
     = Inl (Exn ''stop failed'') \<and>
   Exn ''stop failed'' \<noteq> Exn ''prepare failed'' \<and>
   Stream_stop \<notin> set (trace (prepareAcq (env_of Camera_Ready False
      (failing Camera_prepareAcq ''prepare failed''
        (failing SavingCtrlObj_stop ''stop failed'' no_failure))) idle))"
  by (simp add: prepareAcq_def body_defs env_defs)

text \<open>
  C5 (amended).  Let the steps before the \<^verbatim>\<open>try\<close> block return, and let \<^verbatim>\<open>e\<close> be
  the exception of the first delegation step that throws (the camera-level prepare, the
  serie-id propagation, or the stream-armed wait).  Then \<^verbatim>\<open>prepareAcq\<close> calls the
  saving stop and, when it returns, the stream stop, once each, and these are the last calls
  of the run (the trace ends with them); when both
  return, the caller sees \<^verbatim>\<open>e\<close> unchanged, and when one of them throws, the rollback ends
  there and the caller sees the exception of that stop.
\<close>

theorem prepareAcq_rollback:
  assumes "Camera_getStatus env = Camera_Armed \<longrightarrow> raises env Camera_disarm = None"
      and "SavingCtrlObj_isActive env \<longrightarrow> raises env Camera_deleteMemoryFiles = None"
      and "raises env (Stream_setActive (\<not> SavingCtrlObj_isActive env)) = None"
      and "raises env (Decompress_setActive (\<not> SavingCtrlObj_isActive env)) = None"
      and "raises env Stream_resetStatistics = None"
      and "raises env Camera_prepareAcq = Some e \<or>
           raises env Camera_prepareAcq = None \<and>
             raises env (SavingCtrlObj_setSerieId (Camera_getSerieId env)) = Some e \<or>
           raises env Camera_prepareAcq = None \<and>
             raises env (SavingCtrlObj_setSerieId (Camera_getSerieId env)) = None \<and>
             \<not> SavingCtrlObj_isActive env \<and> raises env (Stream_waitArmed 5) = Some e"
  shows "filter (\<lambda>c. c = SavingCtrlObj_stop \<or> c = Stream_stop) (trace (prepareAcq env s)) =
           SavingCtrlObj_stop #
             (if raises env SavingCtrlObj_stop = None then [Stream_stop] else []) \<and>
         drop (length (trace (prepareAcq env s)) -
               length (SavingCtrlObj_stop #
                 (if raises env SavingCtrlObj_stop = None then [Stream_stop] else [])))
           (trace (prepareAcq env s)) =
           SavingCtrlObj_stop #
             (if raises env SavingCtrlObj_stop = None then [Stream_stop] else []) \<and>
         last (trace (prepareAcq env s)) =
           (if raises env SavingCtrlObj_stop = None then Stream_stop else SavingCtrlObj_stop) \<and>
         outcome (prepareAcq env s) =
           (case raises env SavingCtrlObj_stop of
              Some e' \<Rightarrow> Inl e'
            | None \<Rightarrow> (case raises env Stream_stop of Some e' \<Rightarrow> Inl e' | None \<Rightarrow> Inl e))"
proof -
  note pre = assms(1-5)
  consider
      (prepare) "raises env Camera_prepareAcq = Some e"
    | (serie) "raises env Camera_prepareAcq = None"
        "raises env (SavingCtrlObj_setSerieId (Camera_getSerieId env)) = Some e"
    | (wait) "raises env Camera_prepareAcq = None"
        "raises env (SavingCtrlObj_setSerieId (Camera_getSerieId env)) = None"
        "\<not> SavingCtrlObj_isActive env" "raises env (Stream_waitArmed 5) = Some e"
    using assms(6) by auto
  then show ?thesis
  proof cases
    case prepare
    with pre show ?thesis
      by (cases "SavingCtrlObj_isActive env"; cases "Camera_getStatus env = Camera_Armed";
          simp add: prepareAcq_def body_defs split: option.splits)
  next
    case serie
    with pre show ?thesis
      by (cases "SavingCtrlObj_isActive env"; cases "Camera_getStatus env = Camera_Armed";
          simp add: prepareAcq_def body_defs split: option.splits)
  next
    case wait
    with pre show ?thesis
      by (cases "Camera_getStatus env = Camera_Armed";
          simp add: prepareAcq_def body_defs split: option.splits)
  qed
qed

text \<open>Saving active, the camera-level prepare throws, both stops return.\<close>

theorem prepareAcq_rollback_witness:
  "outcome (prepareAcq (env_of Camera_Ready True
      (failing Camera_prepareAcq ''prepare failed'' no_failure)) idle)
     = Inl (Exn ''prepare failed'') \<and>
   filter (\<lambda>c. c = SavingCtrlObj_stop \<or> c = Stream_stop)
     (trace (prepareAcq (env_of Camera_Ready True
        (failing Camera_prepareAcq ''prepare failed'' no_failure)) idle))
     = [SavingCtrlObj_stop, Stream_stop] \<and>
   last (trace (prepareAcq (env_of Camera_Ready True
        (failing Camera_prepareAcq ''prepare failed'' no_failure)) idle)) = Stream_stop"
proof -
  let ?env = "env_of Camera_Ready True (failing Camera_prepareAcq ''prepare failed'' no_failure)"
  have h1: "Camera_getStatus ?env = Camera_Armed \<longrightarrow> raises ?env Camera_disarm = None"
    and h2: "SavingCtrlObj_isActive ?env \<longrightarrow> raises ?env Camera_deleteMemoryFiles = None"
    and h3: "raises ?env (Stream_setActive (\<not> SavingCtrlObj_isActive ?env)) = None"
    and h4: "raises ?env (Decompress_setActive (\<not> SavingCtrlObj_isActive ?env)) = None"
    and h5: "raises ?env Stream_resetStatistics = None"
    and h6: "raises ?env Camera_prepareAcq = Some (Exn ''prepare failed'')"
    and s1: "raises ?env SavingCtrlObj_stop = None"
    and s2: "raises ?env Stream_stop = None"
    by (simp_all add: env_defs)
  from h6 have h6':
    "raises ?env Camera_prepareAcq = Some (Exn ''prepare failed'') \<or>
     raises ?env Camera_prepareAcq = None \<and>
       raises ?env (SavingCtrlObj_setSerieId (Camera_getSerieId ?env)) =
         Some (Exn ''prepare failed'') \<or>
     raises ?env Camera_prepareAcq = None \<and>
       raises ?env (SavingCtrlObj_setSerieId (Camera_getSerieId ?env)) = None \<and>
       \<not> SavingCtrlObj_isActive ?env \<and>
       raises ?env (Stream_waitArmed 5) = Some (Exn ''prepare failed'')"
    by (rule disjI1)
  from prepareAcq_rollback [OF h1 h2 h3 h4 h5 h6', of idle] s1 s2
  show ?thesis by simp
qed

section \<open>Construction and destruction\<close>

text \<open>
  C8.  For every detector model, the constructor builds the capability list in the order
  device-info, ROI, sync, saving, event, buffer (the buffer control object of the stream),
  decompression, the ROI entry being present exactly when the model supports hardware ROI;
  it asks the ROI object for that support once.
\<close>

theorem Interface_ctor_cap_list:
  "m_cap_list (Interface_ctor hasHwRoiSupport) =
     HwCap m_det_info # (if hasHwRoiSupport then [HwCap m_roi] else []) @
     [HwCap m_sync, HwCap m_saving, HwCap m_event, HwCap_buffer m_stream, HwCap m_decompress] \<and>
   (HwCap m_roi \<in> set (m_cap_list (Interface_ctor hasHwRoiSupport)) \<longleftrightarrow> hasHwRoiSupport) \<and>
   roi_probes (Interface_ctor hasHwRoiSupport) = 1"
  by (simp add: Interface_ctor_def new_def push_back_def probe_roi_def Let_def)

text \<open>
  The claim C9 says that every sub-object created at construction is destroyed, in the reverse
  order of creation.  The event object is created and not destroyed, and the destructor does
  not run in reverse order of creation, with or without the event object.
\<close>

theorem Interface_dtor_not_reverse:
  "m_event \<in> set (created (Interface_ctor True)) \<and>
   m_event \<notin> set (destroyed (Interface_dtor (Interface_ctor True))) \<and>
   destroyed (Interface_dtor (Interface_ctor True)) \<noteq> rev (created (Interface_ctor True)) \<and>
   destroyed (Interface_dtor (Interface_ctor True)) \<noteq>
     rev (removeAll m_event (created (Interface_ctor True)))"
  by (simp add: Interface_ctor_def Interface_dtor_def new_def delete_def push_back_def
        probe_roi_def Let_def)

text \<open>
  C9 (amended).  Leaving the event object aside, the destructor destroys the sub-objects
  created at construction (det-info, ROI, sync, saving, stream, decompression), each once,
  in the order of their creation.
\<close>

theorem Interface_dtor_creation_order:
  "removeAll m_event (destroyed (Interface_dtor (Interface_ctor hasHwRoiSupport))) =
     removeAll m_event (created (Interface_ctor hasHwRoiSupport)) \<and>
   removeAll m_event (created (Interface_ctor hasHwRoiSupport)) =
     [m_det_info, m_roi, m_sync, m_saving, m_stream, m_decompress]"
  by (simp add: Interface_ctor_def Interface_dtor_def new_def delete_def push_back_def
        probe_roi_def Let_def)

end
